theory Spec2Isabelle
  imports Main
begin

section \<open>Terms and the store (prolog/syntax/term.go)\<close>

text \<open>
  A Go pointer \<^verbatim>\<open>*Variable\<close> or \<^verbatim>\<open>*Goal\<close> is an address into a store; the
  structs they point to are mutated in place by the engine, so they live in the store.
  A \<^verbatim>\<open>*Compound\<close> is never mutated after its construction and its identity is never
  compared, so it is a value. The singletons \<^verbatim>\<open>AnonVariable\<close> and \<^verbatim>\<open>Cut\<close> are
  constructors. The payload \<open>'f\<close> of \<open>Float64\<close> stands for Go's float64; its two
  operations used by the code come as parameters (\<open>float64_ops\<close>).
\<close>

type_synonym addr = nat

datatype 'f Term =
    Atom string
  | Integer int
  | Float64 'f
  | Variable addr
  | Compound string "'f Term list"
  | AnonVariable
  | Cut

text \<open>\<^verbatim>\<open>Float64(i)\<close> for an Integer \<open>i\<close>, and \<^verbatim>\<open>==\<close> on float64.\<close>

record 'f float64_ops =
  of_Integer :: "int \<Rightarrow> 'f"
  float_eq :: "'f \<Rightarrow> 'f \<Rightarrow> bool"

text \<open>\<^verbatim>\<open>type Variable struct { name string; value Term }\<close>; a nil value is \<open>None\<close>.\<close>

record 'f variable =
  name :: string
  val :: "'f Term option"

text \<open>
  \<^verbatim>\<open>type Goal struct { head Term; tail *Goal }\<close>; a nil \<^verbatim>\<open>*Goal\<close> is \<open>None\<close>. The
  head is a Term and not nil (the struct's comment: "should never be nil"), as are the
  elements of every argument slice.
\<close>

record 'f Goal =
  head :: "'f Term"
  tail :: "addr option"

record 'f heap =
  vars :: "addr \<Rightarrow> 'f variable"
  nvars :: addr
  goals :: "addr \<Rightarrow> 'f Goal"
  ngoals :: addr

definition empty_heap :: "'f heap" where
  "empty_heap =
     \<lparr>vars = (\<lambda>_. \<lparr>name = [], val = None\<rparr>), nvars = 0,
      goals = (\<lambda>_. \<lparr>head = Cut, tail = None\<rparr>), ngoals = 0\<rparr>"

text \<open>\<^verbatim>\<open>&Variable{name, value}\<close>: a fresh address holding the struct.\<close>

definition alloc_Variable :: "'f variable \<Rightarrow> 'f heap \<Rightarrow> addr \<times> 'f heap" where
  "alloc_Variable c h = (nvars h, h\<lparr>vars := (vars h)(nvars h := c), nvars := Suc (nvars h)\<rparr>)"

definition NewVariable :: "string \<Rightarrow> 'f heap \<Rightarrow> addr \<times> 'f heap" where
  "NewVariable nm h = alloc_Variable \<lparr>name = nm, val = None\<rparr> h"

text \<open>\<^verbatim>\<open>v.value = t\<close>\<close>

definition set_value :: "addr \<Rightarrow> 'f Term option \<Rightarrow> 'f heap \<Rightarrow> 'f heap" where
  "set_value v t h = h\<lparr>vars := (vars h)(v := (vars h v)\<lparr>val := t\<rparr>)\<rparr>"

text \<open>\<^verbatim>\<open>&Goal{head, tail}\<close> and \<^verbatim>\<open>g.tail = t\<close>\<close>

definition alloc_Goal :: "'f Goal \<Rightarrow> 'f heap \<Rightarrow> addr \<times> 'f heap" where
  "alloc_Goal g h = (ngoals h, h\<lparr>goals := (goals h)(ngoals h := g), ngoals := Suc (ngoals h)\<rparr>)"

definition set_tail :: "addr \<Rightarrow> addr option \<Rightarrow> 'f heap \<Rightarrow> 'f heap" where
  "set_tail g t h = h\<lparr>goals := (goals h)(g := (goals h g)\<lparr>tail := t\<rparr>)\<rparr>"

subsection \<open>Variable.Value\<close>

text \<open>
  The loop of \<^verbatim>\<open>Value\<close> follows \<^verbatim>\<open>value\<close> fields while they hold Variables. It need
  not terminate, so it runs on fuel: \<open>None\<close> is "has not returned within the fuel",
  \<open>Some t\<close> is the returned Term (\<open>Some None\<close> is a returned nil).
\<close>

fun Value_loop :: "nat \<Rightarrow> 'f heap \<Rightarrow> 'f Term option \<Rightarrow> 'f Term option option" where
  "Value_loop 0 h t = None"
| "Value_loop (Suc n) h t =
     (case t of
        Some (Variable v) \<Rightarrow> Value_loop n h (val (vars h v))
      | _ \<Rightarrow> Some t)"

definition Variable_Value :: "nat \<Rightarrow> 'f heap \<Rightarrow> addr \<Rightarrow> 'f Term option option" where
  "Variable_Value n h v = Value_loop n h (val (vars h v))"

subsection \<open>Unify\<close>

text \<open>
  \<^verbatim>\<open>t1.Unify(t2)\<close>, dispatched on the dynamic type of the receiver \<open>t1\<close>; each equation
  is the method of one receiver type, its type switch on the argument a \<open>case\<close>.
  Every method call costs one unit of fuel; \<open>None\<close> is "has not returned within the
  fuel". \<open>Unify_args\<close> is the \<^verbatim>\<open>for i, arg := range ...\<close> loop over two argument
  slices of equal length, calling \<^verbatim>\<open>a.Unify(b)\<close> on each pair from the left and
  returning false at the first failure.
\<close>

fun Unify :: "nat \<Rightarrow> 'f float64_ops \<Rightarrow> 'f Term \<Rightarrow> 'f Term \<Rightarrow> 'f heap \<Rightarrow> (bool \<times> 'f heap) option"
and Unify_args :: "nat \<Rightarrow> 'f float64_ops \<Rightarrow> ('f Term \<times> 'f Term) list \<Rightarrow> 'f heap \<Rightarrow> (bool \<times> 'f heap) option"
where
  "Unify 0 ops t1 t2 h = None"
| "Unify (Suc n) ops AnonVariable t2 h = Some (True, h)"
| "Unify (Suc n) ops Cut t2 h = Some (True, h)"
| "Unify (Suc n) ops (Atom a) t h =
     (case t of
        Variable v \<Rightarrow> Unify n ops (Variable v) (Atom a) h
      | Atom b \<Rightarrow> Some (b = a, h)
      | _ \<Rightarrow> Some (False, h))"
| "Unify (Suc n) ops (Integer i) t h =
     (case t of
        Variable v \<Rightarrow> Unify n ops (Variable v) (Integer i) h
      | Integer j \<Rightarrow> Some (j = i, h)
      | Float64 f \<Rightarrow> Some (float_eq ops (of_Integer ops i) f, h)
      | _ \<Rightarrow> Some (False, h))"
| "Unify (Suc n) ops (Float64 f) t h =
     (case t of
        Integer j \<Rightarrow> Some (float_eq ops f (of_Integer ops j), h)
      | Float64 g \<Rightarrow> Some (float_eq ops g f, h)
      | Variable v \<Rightarrow> Unify n ops (Variable v) (Float64 f) h
      | _ \<Rightarrow> Some (False, h))"
| "Unify (Suc n) ops (Variable v) t h =
     (case t of
        Variable v2 \<Rightarrow>
          if v = v2 then Some (True, h)
          else (case val (vars h v) of
                  None \<Rightarrow> Some (True, set_value v (Some (Variable v2)) h)
                | Some x \<Rightarrow>
                    (case val (vars h v2) of
                       None \<Rightarrow> Some (True, set_value v2 (Some (Variable v)) h)
                     | Some x2 \<Rightarrow> Unify n ops x x2 h))
      | _ \<Rightarrow>
          (case val (vars h v) of
             None \<Rightarrow> Some (True, set_value v (Some t) h)
           | Some x \<Rightarrow> Unify n ops x t h))"
| "Unify (Suc n) ops (Compound f as) t h =
     (case t of
        Variable v \<Rightarrow> Unify n ops (Variable v) (Compound f as) h
      | Compound g bs \<Rightarrow>
          if f \<noteq> g \<or> length as \<noteq> length bs then Some (False, h)
          else Unify_args n ops (zip as bs) h
      | _ \<Rightarrow> Some (False, h))"
| "Unify_args 0 ops ps h = None"
| "Unify_args (Suc n) ops [] h = Some (True, h)"
| "Unify_args (Suc n) ops ((a, b) # ps) h =
     (case Unify n ops a b h of
        None \<Rightarrow> None
      | Some (ok, h') \<Rightarrow> if \<not> ok then Some (False, h') else Unify_args n ops ps h')"

subsection \<open>Callable\<close>

text \<open>A \<^verbatim>\<open>*Compound\<close> as a value: its functor and its args.\<close>

type_synonym 'f compound = "string \<times> 'f Term list"

text \<open>
  \<^verbatim>\<open>t.Callable()\<close>: nil for every receiver but a Compound (itself) and a Variable
  (its value's Callable, nil when unset). The Variable case recurses through the store.
\<close>

fun Callable :: "nat \<Rightarrow> 'f heap \<Rightarrow> 'f Term \<Rightarrow> 'f compound option option" where
  "Callable 0 h t = None"
| "Callable (Suc n) h AnonVariable = Some None"
| "Callable (Suc n) h Cut = Some None"
| "Callable (Suc n) h (Atom a) = Some None"
| "Callable (Suc n) h (Integer i) = Some None"
| "Callable (Suc n) h (Float64 f) = Some None"
| "Callable (Suc n) h (Variable v) =
     (case val (vars h v) of None \<Rightarrow> Some None | Some x \<Rightarrow> Callable n h x)"
| "Callable (Suc n) h (Compound f as) = Some (Some (f, as))"

subsection \<open>Goal lists and rules\<close>

text \<open>\<^verbatim>\<open>NewGoal(head, tail...)\<close> builds the linked list node by node.\<close>

fun NewGoal_loop :: "addr \<Rightarrow> 'f Term list \<Rightarrow> 'f heap \<Rightarrow> 'f heap" where
  "NewGoal_loop c [] h = h"
| "NewGoal_loop c (t # ts) h =
     (let (g, h1) = alloc_Goal \<lparr>head = t, tail = None\<rparr> h;
          h2 = set_tail c (Some g) h1
      in NewGoal_loop g ts h2)"

definition NewGoal :: "'f Term \<Rightarrow> 'f Term list \<Rightarrow> 'f heap \<Rightarrow> addr \<times> 'f heap" where
  "NewGoal t ts h =
     (let (comp, h1) = alloc_Goal \<lparr>head = t, tail = None\<rparr> h
      in (comp, NewGoal_loop comp ts h1))"

text \<open>\<^verbatim>\<open>type Rule struct { functor Atom; args []Term; body *Goal }\<close>
  (\<open>functor\<close> is a reserved word of the theory language).\<close>

record 'f Rule =
  rule_functor :: string
  args :: "'f Term list"
  body :: "addr option"

definition NewRule :: "string \<Rightarrow> 'f Term list \<Rightarrow> addr option \<Rightarrow> 'f Rule" where
  "NewRule f as b = \<lparr>rule_functor = f, args = as, body = b\<rparr>"

text \<open>
  The closures \<^verbatim>\<open>cpTerm\<close> and \<^verbatim>\<open>cpTerms\<close> of \<^verbatim>\<open>Rule.cp\<close>; the captured map
  \<^verbatim>\<open>vars\<close> (old Variable to new Variable) and the store are threaded through.
\<close>

fun cpTerm :: "'f Term \<Rightarrow> (addr \<rightharpoonup> addr) \<times> 'f heap \<Rightarrow> 'f Term \<times> (addr \<rightharpoonup> addr) \<times> 'f heap"
and cpTerms :: "'f Term list \<Rightarrow> (addr \<rightharpoonup> addr) \<times> 'f heap \<Rightarrow> 'f Term list \<times> (addr \<rightharpoonup> addr) \<times> 'f heap"
where
  "cpTerm (Variable v) (m, h) =
     (case m v of
        Some newval \<Rightarrow> (Variable newval, m, h)
      | None \<Rightarrow>
          (let (newval, h') = alloc_Variable \<lparr>name = name (vars h v), val = None\<rparr> h
           in (Variable newval, m(v \<mapsto> newval), h')))"
| "cpTerm (Compound f as) s = (let (as', s') = cpTerms as s in (Compound f as', s'))"
| "cpTerm t s = (t, s)"
| "cpTerms [] s = ([], s)"
| "cpTerms (t # ts) s =
     (let (t', s1) = cpTerm t s; (ts', s2) = cpTerms ts s1 in (t' # ts', s2))"

text \<open>
  The loop of \<^verbatim>\<open>Rule.cp\<close> over the body:
  \<^verbatim>\<open>for next != nil { last.tail = &Goal{cpTerm(next.head), nil}; last, next = next, next.tail }\<close>.
  Note that \<^verbatim>\<open>last\<close> becomes \<^verbatim>\<open>next\<close>, a node of the rule's own body.
\<close>

fun cp_loop :: "nat \<Rightarrow> addr \<Rightarrow> addr option \<Rightarrow> (addr \<rightharpoonup> addr) \<times> 'f heap \<Rightarrow> ((addr \<rightharpoonup> addr) \<times> 'f heap) option" where
  "cp_loop 0 lst nxt s = None"
| "cp_loop (Suc n) lst None s = Some s"
| "cp_loop (Suc n) lst (Some nx) (m, h) =
     (let (t', m1, h1) = cpTerm (head (goals h nx)) (m, h);
          (g, h2) = alloc_Goal \<lparr>head = t', tail = None\<rparr> h1;
          h3 = set_tail lst (Some g) h2
      in cp_loop n nx (tail (goals h3 nx)) (m1, h3))"

definition Rule_cp :: "nat \<Rightarrow> 'f Rule \<Rightarrow> 'f heap \<Rightarrow> ('f Rule \<times> 'f heap) option" where
  "Rule_cp n r h =
     (let (as', m, h1) = cpTerms (args r) (Map.empty, h)
      in case body r of
           None \<Rightarrow> Some (\<lparr>rule_functor = rule_functor r, args = as', body = None\<rparr>, h1)
         | Some b \<Rightarrow>
             (let (t', m1, h2) = cpTerm (head (goals h1 b)) (m, h1);
                  (g, h3) = alloc_Goal \<lparr>head = t', tail = None\<rparr> h2
              in case cp_loop n g (tail (goals h3 b)) (m1, h3) of
                   None \<Rightarrow> None
                 | Some (m2, h4) \<Rightarrow> Some (\<lparr>rule_functor = rule_functor r, args = as', body = Some g\<rparr>, h4)))"

subsection \<open>Clauses and Call\<close>

text \<open>
  The outcome of a call that may panic or not return within the fuel.
\<close>

datatype 'a run = OutOfFuel | Panic string | Return 'a

text \<open>\<^verbatim>\<open>xs[i]\<close> on a slice: Go panics when the index is out of range.\<close>

definition index :: "'a list \<Rightarrow> nat \<Rightarrow> 'a run" where
  "index xs i = (if i < length xs then Return (xs ! i) else Panic ''index out of range'')"

text \<open>
  \<^verbatim>\<open>type builtin struct { name string; nArgs int; call func(arg []Term) (*Goal, bool) }\<close>
  (prolog/builtin/builtin.go).
\<close>

record 'f builtin =
  name :: string
  nArgs :: int
  call :: "'f Term list \<Rightarrow> (addr option \<times> bool) run"

text \<open>The implementations of the interface \<^verbatim>\<open>Clause\<close>: *Compound, *Rule, *builtin.\<close>

datatype 'f Clause = Fact "'f compound" | RuleClause "'f Rule" | Builtin "'f builtin"

type_synonym sig = "string \<times> int"

definition Signature :: "'f Clause \<Rightarrow> sig" where
  "Signature c =
     (case c of
        Fact (f, as) \<Rightarrow> (f, int (length as))
      | RuleClause r \<Rightarrow> (rule_functor r, int (length (args r)))
      | Builtin b \<Rightarrow> (name b, nArgs b))"

definition Compound_Call :: "nat \<Rightarrow> 'f float64_ops \<Rightarrow> 'f compound \<Rightarrow> 'f Term list \<Rightarrow> 'f heap \<Rightarrow> ((addr option \<times> bool) \<times> 'f heap) run" where
  "Compound_Call n ops c as h =
     (if length (snd c) \<noteq> length as then Return ((None, False), h)
      else case Unify_args n ops (zip as (snd c)) h of
             None \<Rightarrow> OutOfFuel
           | Some (ok, h') \<Rightarrow> Return ((None, ok), h'))"

definition Rule_Call :: "nat \<Rightarrow> 'f float64_ops \<Rightarrow> 'f Rule \<Rightarrow> 'f Term list \<Rightarrow> 'f heap \<Rightarrow> ((addr option \<times> bool) \<times> 'f heap) run" where
  "Rule_Call n ops r as h =
     (if length as \<noteq> length (args r) then Return ((None, False), h)
      else case Rule_cp n r h of
             None \<Rightarrow> OutOfFuel
           | Some (ruleCP, h1) \<Rightarrow>
               (case Unify_args n ops (zip as (args ruleCP)) h1 of
                  None \<Rightarrow> OutOfFuel
                | Some (ok, h2) \<Rightarrow>
                    if \<not> ok then Return ((None, False), h2)
                    else Return ((body ruleCP, True), h2)))"

definition builtin_Call :: "'f builtin \<Rightarrow> 'f Term list \<Rightarrow> (addr option \<times> bool) run" where
  "builtin_Call b as = call b as"

definition Call :: "nat \<Rightarrow> 'f float64_ops \<Rightarrow> 'f Clause \<Rightarrow> 'f Term list \<Rightarrow> 'f heap \<Rightarrow> ((addr option \<times> bool) \<times> 'f heap) run" where
  "Call n ops c as h =
     (case c of
        Fact f \<Rightarrow> Compound_Call n ops f as h
      | RuleClause r \<Rightarrow> Rule_Call n ops r as h
      | Builtin b \<Rightarrow>
          (case builtin_Call b as of
             OutOfFuel \<Rightarrow> OutOfFuel
           | Panic s \<Rightarrow> Panic s
           | Return x \<Rightarrow> Return (x, h)))"

subsection \<open>The type tests (prolog/builtin/type.go)\<close>

text \<open>The type assertions \<^verbatim>\<open>_, ok = t.(*Variable)\<close>, \<^verbatim>\<open>t.(Integer)\<close>, \<^verbatim>\<open>t.(Float64)\<close>.\<close>

definition is_Variable :: "'f Term \<Rightarrow> bool" where
  "is_Variable t = (case t of Variable v \<Rightarrow> True | _ \<Rightarrow> False)"

definition is_Integer :: "'f Term \<Rightarrow> bool" where
  "is_Integer t = (case t of Integer i \<Rightarrow> True | _ \<Rightarrow> False)"

definition is_Float64 :: "'f Term \<Rightarrow> bool" where
  "is_Float64 t = (case t of Float64 f \<Rightarrow> True | _ \<Rightarrow> False)"

text \<open>
  The shape shared by the four closures:
  \<^verbatim>\<open>matches := false; if len(args) == 1 { _, matches = args[1].(T) }; return nil, matches\<close>.
\<close>

definition type_test :: "('f Term \<Rightarrow> bool) \<Rightarrow> 'f Term list \<Rightarrow> (addr option \<times> bool) run" where
  "type_test is_T as =
     (if length as = 1
      then (case index as 1 of
              OutOfFuel \<Rightarrow> OutOfFuel
            | Panic s \<Rightarrow> Panic s
            | Return t \<Rightarrow> Return (None, is_T t))
      else Return (None, False))"

definition Var1 :: "'f Clause" where
  "Var1 = Builtin \<lparr>name = ''var'', nArgs = 1, call = type_test is_Variable\<rparr>"

definition Nonvar1 :: "'f Clause" where
  "Nonvar1 = Builtin \<lparr>name = ''nonvar'', nArgs = 1, call = type_test (\<lambda>t. \<not> is_Variable t)\<rparr>"

definition Integer1 :: "'f Clause" where
  "Integer1 = Builtin \<lparr>name = ''integer'', nArgs = 1, call = type_test is_Integer\<rparr>"

definition Float1 :: "'f Clause" where
  "Float1 = Builtin \<lparr>name = ''float'', nArgs = 1, call = type_test is_Float64\<rparr>"

section \<open>The program and the resolution driver (package syntax)\<close>

text \<open>\<^verbatim>\<open>type TypeErr struct { Exp string; Term Term }\<close>, and \<^verbatim>\<open>errors.New(s)\<close>.\<close>

datatype 'f error = TypeErr string "'f Term" | errorString string

text \<open>
  \<^verbatim>\<open>type Prog struct { running bool; clauses map[sig][]Clause }\<close>. A key that is
  absent from the map reads as the nil slice.
\<close>

record 'f Prog =
  running :: bool
  prog_clauses :: "sig \<rightharpoonup> 'f Clause list"

definition Prog_Add :: "'f Prog \<Rightarrow> 'f Clause \<Rightarrow> 'f Prog" where
  "Prog_Add p clause =
     (let s = Signature clause
      in p\<lparr>prog_clauses := (prog_clauses p)
            (s \<mapsto> (case prog_clauses p s of None \<Rightarrow> [] | Some cs \<Rightarrow> cs) @ [clause])\<rparr>)"

definition NewProg :: "'f Clause list \<Rightarrow> 'f Prog" where
  "NewProg cs = fold (\<lambda>c p. Prog_Add p c) cs \<lparr>running = False, prog_clauses = Map.empty\<rparr>"

definition Prog_match :: "'f Prog \<Rightarrow> 'f compound \<Rightarrow> 'f Clause list" where
  "Prog_match p c =
     (case prog_clauses p (fst c, int (length (snd c))) of
        Some cs \<Rightarrow> cs
      | None \<Rightarrow> [])"

text \<open>
  \<^verbatim>\<open>type choicepoint struct { backtrack *choicepoint; fact *Compound; remaining *Goal;
  clauses []Clause; state map[*Variable]Term }\<close>. A choicepoint is only ever referenced
  by \<^verbatim>\<open>Results.cp\<close> or by the \<^verbatim>\<open>backtrack\<close> field of exactly one younger
  choicepoint, so the chain is a value. A key absent from \<^verbatim>\<open>state\<close> reads as nil.
\<close>

datatype 'f choicepoint =
  Choicepoint (backtrack: "'f choicepoint option") (fact: "'f compound")
    (remaining: "addr option") (clauses: "'f Clause list") (state: "addr \<Rightarrow> 'f Term option")

definition set_backtrack :: "'f choicepoint option \<Rightarrow> 'f choicepoint \<Rightarrow> 'f choicepoint" where
  "set_backtrack b cp = Choicepoint b (fact cp) (remaining cp) (clauses cp) (state cp)"

definition set_clauses :: "'f Clause list \<Rightarrow> 'f choicepoint \<Rightarrow> 'f choicepoint" where
  "set_clauses cs cp = Choicepoint (backtrack cp) (fact cp) (remaining cp) cs (state cp)"

text \<open>\<^verbatim>\<open>visitVarsTerm\<close> and \<^verbatim>\<open>visitVars\<close>; the callback acts on a state \<open>'s\<close>.\<close>

fun visitVarsTerm :: "'f Term \<Rightarrow> (addr \<Rightarrow> 's \<Rightarrow> 's) \<Rightarrow> 's \<Rightarrow> 's" where
  "visitVarsTerm (Variable v) fn s = fn v s"
| "visitVarsTerm (Compound f as) fn s = fold (\<lambda>a. visitVarsTerm a fn) as s"
| "visitVarsTerm t fn s = s"

fun visitVars :: "nat \<Rightarrow> (addr \<Rightarrow> 'f Goal) \<Rightarrow> addr option \<Rightarrow> (addr \<Rightarrow> 's \<Rightarrow> 's) \<Rightarrow> 's \<Rightarrow> 's option" where
  "visitVars 0 gs c fn s = None"
| "visitVars (Suc n) gs None fn s = Some s"
| "visitVars (Suc n) gs (Some a) fn s =
     visitVars n gs (tail (gs a)) fn (visitVarsTerm (head (gs a)) fn s)"

text \<open>
  \<^verbatim>\<open>Prog.choicepoint(c, backtrack)\<close>. The receiver may be nil (\<^verbatim>\<open>Results.p\<close> after
  Close); it is dereferenced only by \<^verbatim>\<open>p.match\<close>.
\<close>

definition Prog_choicepoint :: "nat \<Rightarrow> 'f Prog option \<Rightarrow> addr option \<Rightarrow> 'f choicepoint option \<Rightarrow> 'f heap \<Rightarrow> ('f choicepoint option \<times> 'f error option) run" where
  "Prog_choicepoint n p c bt h =
     (case c of
        None \<Rightarrow> Panic ''syntax: Compound cannot be nil''
      | Some a \<Rightarrow>
          (case Callable n h (head (goals h a)) of
             None \<Rightarrow> OutOfFuel
           | Some None \<Rightarrow> Return (None, Some (TypeErr ''callable'' (head (goals h a))))
           | Some (Some fct) \<Rightarrow>
               (case visitVars n (goals h) c (\<lambda>v st. st(v := val (vars h v))) (\<lambda>v. None) of
                  None \<Rightarrow> OutOfFuel
                | Some st \<Rightarrow>
                    (case p of
                       None \<Rightarrow> Panic ''nil pointer dereference''
                     | Some pr \<Rightarrow>
                         Return (Some (Choicepoint bt fct (tail (goals h a)) (Prog_match pr fct) st),
                                 None)))))"

definition choicepoint_pop :: "'f choicepoint \<Rightarrow> 'f Clause option \<times> 'f choicepoint" where
  "choicepoint_pop cp =
     (case clauses cp of
        [] \<Rightarrow> (None, cp)
      | clause # cs \<Rightarrow> (Some clause, set_clauses cs cp))"

definition choicepoint_resetVars :: "nat \<Rightarrow> 'f choicepoint \<Rightarrow> 'f heap \<Rightarrow> 'f heap option" where
  "choicepoint_resetVars n cp h =
     (let reset = (\<lambda>v. set_value v (state cp v));
          h1 = visitVarsTerm (Compound (fst (fact cp)) (snd (fact cp))) reset h
      in visitVars n (goals h1) (remaining cp) reset h1)"

text \<open>\<^verbatim>\<open>for tail.tail != nil { tail = tail.tail }\<close>\<close>

fun last_Goal :: "nat \<Rightarrow> (addr \<Rightarrow> 'f Goal) \<Rightarrow> addr \<Rightarrow> addr option" where
  "last_Goal 0 gs a = None"
| "last_Goal (Suc n) gs a =
     (case tail (gs a) of None \<Rightarrow> Some a | Some b \<Rightarrow> last_Goal n gs b)"

text \<open>
  \<^verbatim>\<open>choicepoint.next\<close>: the result, and the choicepoint and the store as it leaves them.
\<close>

fun choicepoint_next :: "nat \<Rightarrow> 'f float64_ops \<Rightarrow> 'f choicepoint \<Rightarrow> 'f heap \<Rightarrow> ((addr option \<times> bool) \<times> 'f choicepoint \<times> 'f heap) run" where
  "choicepoint_next 0 ops cp h = OutOfFuel"
| "choicepoint_next (Suc n) ops cp h =
     (case choicepoint_pop cp of
        (None, cp1) \<Rightarrow> Return ((None, False), cp1, h)
      | (Some clause, cp1) \<Rightarrow>
          (case choicepoint_resetVars n cp1 h of
             None \<Rightarrow> OutOfFuel
           | Some h1 \<Rightarrow>
               (case Call n ops clause (snd (fact cp1)) h1 of
                  OutOfFuel \<Rightarrow> OutOfFuel
                | Panic s \<Rightarrow> Panic s
                | Return ((result, matches), h2) \<Rightarrow>
                    if \<not> matches then choicepoint_next n ops cp1 h2
                    else (case result of
                            None \<Rightarrow> Return ((remaining cp1, True), cp1, h2)
                          | Some res \<Rightarrow>
                              (case last_Goal n (goals h2) res of
                                 None \<Rightarrow> OutOfFuel
                               | Some tail_node \<Rightarrow>
                                   Return ((Some res, True), cp1,
                                           set_tail tail_node (remaining cp1) h2))))))"

text \<open>\<^verbatim>\<open>type Results struct { p *Prog; cp *choicepoint; err error }\<close>\<close>

record 'f Results =
  r_p :: "'f Prog option"
  r_cp :: "'f choicepoint option"
  r_err :: "'f error option"

definition Results_Close :: "'f Results \<Rightarrow> 'f Results" where
  "Results_Close r =
     \<lparr>r_p = None, r_cp = None,
      r_err = (if r_err r = None then Some (errorString ''results closed'') else r_err r)\<rparr>"

definition Results_Err :: "'f Results \<Rightarrow> 'f error option" where
  "Results_Err r = r_err r"

text \<open>
  The inner loop of \<^verbatim>\<open>Next\<close>:
  \<^verbatim>\<open>for compound != nil && compound.head == Cut { r.cp.backtrack = nil; compound = compound.tail }\<close>
\<close>

fun Next_cuts :: "nat \<Rightarrow> (addr \<Rightarrow> 'f Goal) \<Rightarrow> addr option \<Rightarrow> 'f choicepoint \<Rightarrow> (addr option \<times> 'f choicepoint) option" where
  "Next_cuts 0 gs compound cp = None"
| "Next_cuts (Suc n) gs None cp = Some (None, cp)"
| "Next_cuts (Suc n) gs (Some a) cp =
     (case head (gs a) of
        Cut \<Rightarrow> Next_cuts n gs (tail (gs a)) (set_backtrack None cp)
      | _ \<Rightarrow> Some (Some a, cp))"

text \<open>The loop \<^verbatim>\<open>for r.cp != nil { ... }\<close> of \<^verbatim>\<open>Next\<close>.\<close>

fun Next_loop :: "nat \<Rightarrow> 'f float64_ops \<Rightarrow> 'f Results \<Rightarrow> 'f heap \<Rightarrow> (bool \<times> 'f Results \<times> 'f heap) run" where
  "Next_loop 0 ops r h = OutOfFuel"
| "Next_loop (Suc n) ops r h =
     (case r_cp r of
        None \<Rightarrow> Return (False, r, h)
      | Some cp \<Rightarrow>
          (case choicepoint_next n ops cp h of
             OutOfFuel \<Rightarrow> OutOfFuel
           | Panic s \<Rightarrow> Panic s
           | Return ((compound, match), cp1, h1) \<Rightarrow>
               if \<not> match then Next_loop n ops (r\<lparr>r_cp := backtrack cp1\<rparr>) h1
               else (case Next_cuts n (goals h1) compound cp1 of
                       None \<Rightarrow> OutOfFuel
                     | Some (None, cp2) \<Rightarrow> Return (True, r\<lparr>r_cp := Some cp2\<rparr>, h1)
                     | Some (Some c, cp2) \<Rightarrow>
                         (case Prog_choicepoint n (r_p r) (Some c) (Some cp2) h1 of
                            OutOfFuel \<Rightarrow> OutOfFuel
                          | Panic s \<Rightarrow> Panic s
                          | Return (cp', e) \<Rightarrow>
                              if e \<noteq> None then Return (False, r\<lparr>r_cp := cp', r_err := e\<rparr>, h1)
                              else Next_loop n ops (r\<lparr>r_cp := cp', r_err := e\<rparr>) h1))))"

definition Results_Next :: "nat \<Rightarrow> 'f float64_ops \<Rightarrow> 'f Results \<Rightarrow> 'f heap \<Rightarrow> (bool \<times> 'f Results \<times> 'f heap) run" where
  "Results_Next n ops r h =
     (if r_err r \<noteq> None then Return (False, r, h) else Next_loop n ops r h)"

definition Prog_Query :: "nat \<Rightarrow> 'f Prog \<Rightarrow> addr option \<Rightarrow> 'f heap \<Rightarrow> 'f Results run" where
  "Prog_Query n p c h =
     (case Prog_choicepoint n (Some p) c None h of
        OutOfFuel \<Rightarrow> OutOfFuel
      | Panic s \<Rightarrow> Panic s
      | Return (cp, e) \<Rightarrow>
          if e \<noteq> None then Return \<lparr>r_p = None, r_cp = None, r_err = e\<rparr>
          else Return \<lparr>r_p = Some p, r_cp = cp, r_err = None\<rparr>)"

section \<open>Observing a query\<close>

text \<open>
  The loop of \<^verbatim>\<open>testQuery\<close> in the tests of package syntax: call \<^verbatim>\<open>Next\<close> \<open>k\<close> times and record, after
  each call, what it returned and \<^verbatim>\<open>v.Value()\<close> of the observed Variables \<open>xs\<close>.
\<close>

fun Next_log :: "nat \<Rightarrow> 'f float64_ops \<Rightarrow> addr list \<Rightarrow> nat \<Rightarrow> 'f Results \<Rightarrow> 'f heap \<Rightarrow> (bool \<times> 'f Term option option list) list run" where
  "Next_log n ops xs 0 r h = Return []"
| "Next_log n ops xs (Suc k) r h =
     (case Results_Next n ops r h of
        OutOfFuel \<Rightarrow> OutOfFuel
      | Panic s \<Rightarrow> Panic s
      | Return (ok, r', h') \<Rightarrow>
          (case Next_log n ops xs k r' h' of
             OutOfFuel \<Rightarrow> OutOfFuel
           | Panic s \<Rightarrow> Panic s
           | Return obs \<Rightarrow> Return ((ok, map (Variable_Value n h') xs) # obs)))"

text \<open>\<^verbatim>\<open>r := p.Query(NewGoal(t, ts...))\<close> followed by \<open>k\<close> calls of \<^verbatim>\<open>r.Next()\<close>.\<close>

definition Query_log :: "nat \<Rightarrow> 'f float64_ops \<Rightarrow> 'f Prog \<Rightarrow> 'f Term \<Rightarrow> 'f Term list \<Rightarrow> addr list \<Rightarrow> nat \<Rightarrow> 'f heap \<Rightarrow> (bool \<times> 'f Term option option list) list run" where
  "Query_log n ops p t ts xs k h =
     (let (q, h1) = NewGoal t ts h
      in case Prog_Query n p (Some q) h1 of
           OutOfFuel \<Rightarrow> OutOfFuel
         | Panic s \<Rightarrow> Panic s
         | Return r \<Rightarrow> Next_log n ops xs k r h1)"

text \<open>The heads of a goal list, from the node \<open>c\<close> to the nil tail.\<close>

fun Goal_heads :: "nat \<Rightarrow> (addr \<Rightarrow> 'f Goal) \<Rightarrow> addr option \<Rightarrow> 'f Term list option" where
  "Goal_heads 0 gs c = None"
| "Goal_heads (Suc n) gs None = Some []"
| "Goal_heads (Suc n) gs (Some a) =
     (case Goal_heads n gs (tail (gs a)) of
        None \<Rightarrow> None
      | Some ts \<Rightarrow> Some (head (gs a) # ts))"

text \<open>The program of \<^verbatim>\<open>TestMultiMatch\<close> in the tests of package syntax.\<close>

definition likes_prog :: "'f Prog" where
  "likes_prog =
     NewProg [Fact (''likes'', [Atom ''eric'', Atom ''shoes'']),
              Fact (''likes'', [Atom ''bob'', Atom ''pizza'']),
              Fact (''likes'', [Atom ''eric'', Atom ''bubblegum'']),
              Fact (''likes'', [Atom ''bob'', Atom ''beer''])]"

text \<open>
  A float model for closed examples; none of them contains a Float64 term, so its
  operations are never called.
\<close>

definition unit_ops :: "unit float64_ops" where
  "unit_ops = \<lparr>of_Integer = (\<lambda>i. ()), float_eq = (\<lambda>a b. True)\<rparr>"

text \<open>Results holding a TypeErr, and Results of a query that has not failed.\<close>

definition failed_Results :: "unit Results" where
  "failed_Results = \<lparr>r_p = None, r_cp = None, r_err = Some (TypeErr ''callable'' (Integer 1))\<rparr>"

definition fresh_Results :: "unit Results" where
  "fresh_Results = \<lparr>r_p = Some likes_prog, r_cp = None, r_err = None\<rparr>"

text \<open>Two Variables as \<^verbatim>\<open>NewVariable("X")\<close> and \<^verbatim>\<open>NewVariable("Y")\<close> leave them: at 0 and 1.\<close>

definition two_Variables :: "unit heap" where
  "two_Variables = snd (NewVariable ''Y'' (snd (NewVariable ''X'' empty_heap)))"

text \<open>
  The program \<^verbatim>\<open>a(1). a(2). b(X) :- a(X), !.\<close> with a fresh Variable Y for the query
  \<^verbatim>\<open>b(Y)\<close>: the program, Y, and the store holding X, the rule's body and Y.
\<close>

definition cut_example :: "'f Prog \<times> addr \<times> 'f heap" where
  "cut_example =
     (let (x, h1) = NewVariable ''X'' empty_heap;
          (b, h2) = NewGoal (Compound ''a'' [Variable x]) [Cut] h1;
          (y, h3) = NewVariable ''Y'' h2
      in (NewProg [Fact (''a'', [Integer 1]), Fact (''a'', [Integer 2]),
                   RuleClause (NewRule ''b'' [Variable x] (Some b))],
          y, h3))"

text \<open>The same program and query with the cut left out: \<^verbatim>\<open>a(1). a(2). b(X) :- a(X).\<close>\<close>

definition nocut_example :: "'f Prog \<times> addr \<times> 'f heap" where
  "nocut_example =
     (let (x, h1) = NewVariable ''X'' empty_heap;
          (b, h2) = NewGoal (Compound ''a'' [Variable x]) [] h1;
          (y, h3) = NewVariable ''Y'' h2
      in (NewProg [Fact (''a'', [Integer 1]), Fact (''a'', [Integer 2]),
                   RuleClause (NewRule ''b'' [Variable x] (Some b))],
          y, h3))"


text \<open>
  The rule \<^verbatim>\<open>r(X) :- a(X), b(X), c(X).\<close> as
  \<^verbatim>\<open>NewRule("r", []Term{x}, NewGoal(a(x), b(x), c(x)))\<close> builds it, and the store.
\<close>

definition three_goal_rule :: "'f Rule \<times> 'f heap" where
  "three_goal_rule =
     (let (x, h1) = NewVariable ''X'' empty_heap;
          (b, h2) = NewGoal (Compound ''a'' [Variable x])
                      [Compound ''b'' [Variable x], Compound ''c'' [Variable x]] h1
      in (NewRule ''r'' [Variable x] (Some b), h2))"







section \<open>Solution order\<close>

text \<open>
  C8: for the program \<^verbatim>\<open>likes(eric, shoes). likes(bob, pizza). likes(eric, bubblegum).
  likes(bob, beer).\<close> the query \<^verbatim>\<open>likes(bob, X)\<close> with a fresh Variable X yields its
  solutions in clause-insertion order: the first Next returns true with X = pizza, the
  second returns true with X = beer, and the third returns false.
\<close>

theorem likes_bob_solutions_in_insertion_order:
  "(let (x, h) = NewVariable ''X'' empty_heap
    in Query_log 10 (ops :: ('f :: equal) float64_ops) likes_prog
         (Compound ''likes'' [Atom ''bob'', Variable x]) [] [x] 3 h)
   = Return [(True, [Some (Some (Atom ''pizza''))]),
             (True, [Some (Some (Atom ''beer''))]),
             (False, [Some (Some (Atom ''beer''))])]"
  by code_simp

section \<open>Sticky errors and Close\<close>

text \<open>
  C9, as amended: once \<^verbatim>\<open>Err()\<close> is non-nil, \<^verbatim>\<open>Next()\<close> returns false and leaves the
  Results (and the store) as they are, so every later call does the same, and
  \<^verbatim>\<open>Close()\<close> keeps that error as it is. \<^verbatim>\<open>Close()\<close> records the error
  "results closed" only on Results that hold no error. After \<^verbatim>\<open>Close()\<close> the error is
  non-nil in every case, so \<^verbatim>\<open>Next()\<close> returns false; and a second \<^verbatim>\<open>Close()\<close>
  changes nothing.
\<close>

theorem Results_err_sticky_and_Close:
  "(Results_Err r \<noteq> None \<longrightarrow>
      Results_Next n ops r h = Return (False, r, h)
      \<and> Results_Err (Results_Close r) = Results_Err r)
   \<and> (Results_Err r' = None \<longrightarrow>
        Results_Err (Results_Close r') = Some (errorString ''results closed''))
   \<and> Results_Err (Results_Close r') \<noteq> None
   \<and> Results_Next n ops (Results_Close r') h = Return (False, Results_Close r', h)
   \<and> Results_Close (Results_Close r') = Results_Close r'"
  by (simp add: Results_Err_def Results_Next_def Results_Close_def)

theorem Results_err_sticky_and_Close_witness:
  "Results_Err failed_Results \<noteq> None
   \<and> Results_Err fresh_Results = None
   \<and> Results_Next 5 unit_ops failed_Results empty_heap = Return (False, failed_Results, empty_heap)
   \<and> Results_Err (Results_Close failed_Results) = Results_Err failed_Results
   \<and> Results_Err (Results_Close fresh_Results) = Some (errorString ''results closed'')
   \<and> Results_Next 5 unit_ops (Results_Close fresh_Results) empty_heap
       = Return (False, Results_Close fresh_Results, empty_heap)
   \<and> Results_Close (Results_Close fresh_Results) = Results_Close fresh_Results"
proof -
  have e1: "Results_Err failed_Results \<noteq> None"
    by (simp add: Results_Err_def failed_Results_def)
  have e2: "Results_Err fresh_Results = None"
    by (simp add: Results_Err_def fresh_Results_def)
  from e1 e2 Results_err_sticky_and_Close [of failed_Results 5 unit_ops empty_heap fresh_Results]
  show ?thesis by blast
qed

text \<open>
  The query whose goal is the number 1 returns Results holding a TypeErr, and
  \<^verbatim>\<open>Close()\<close> on them leaves \<^verbatim>\<open>Err()\<close> that TypeErr, not "results closed".
\<close>

theorem Close_keeps_earlier_error_counterexample:
  "(case NewGoal (Integer 1) [] empty_heap of
      (g, h) \<Rightarrow> Prog_Query 5 likes_prog (Some g) h) = Return failed_Results
   \<and> Results_Err (Results_Close failed_Results) = Some (TypeErr ''callable'' (Integer 1))
   \<and> Results_Err (Results_Close failed_Results) \<noteq> Some (errorString ''results closed'')"
  by (simp add: NewGoal_def alloc_Goal_def empty_heap_def Prog_Query_def Prog_choicepoint_def
        eval_nat_numeral failed_Results_def Results_Err_def Results_Close_def)

section \<open>Unification\<close>

lemma val_set_value:
  "val (vars (set_value v t h) w) = (if w = v then t else val (vars h w))"
  by (simp add: set_value_def)

lemma Value_loop_two_cycle:
  "val (vars h x) = Some (Variable y) \<Longrightarrow> val (vars h y) = Some (Variable x) \<Longrightarrow>
   Value_loop k h (Some (Variable x)) = None"
proof (induction k arbitrary: x y)
  case 0
  show ?case by simp
next
  case (Suc k)
  from Suc.IH [of y x] Suc.prems show ?case by simp
qed

text \<open>
  C6: the anonymous variable and the cut marker as receivers unify with every term, but
  an Atom or a Compound as receiver returns false when the argument is the anonymous
  variable or the cut marker: the type switches of \<^verbatim>\<open>Atom.Unify\<close> and
  \<^verbatim>\<open>Compound.Unify\<close> have no case for them.
\<close>

theorem Unify_AnonVariable_Cut_one_sided:
  "Unify (Suc n) ops AnonVariable t h = Some (True, h)
   \<and> Unify (Suc n) ops Cut t h = Some (True, h)
   \<and> Unify (Suc n) ops (Atom a) AnonVariable h = Some (False, h)
   \<and> Unify (Suc n) ops (Atom a) Cut h = Some (False, h)
   \<and> Unify (Suc n) ops (Compound f as) AnonVariable h = Some (False, h)
   \<and> Unify (Suc n) ops (Compound f as) Cut h = Some (False, h)"
  by simp

text \<open>
  C4: for two distinct unset Variables x and y, \<^verbatim>\<open>x.Unify(y)\<close> returns true and sets
  \<^verbatim>\<open>x.value = y\<close>, leaving y unset; the immediately repeated \<^verbatim>\<open>x.Unify(y)\<close> returns
  true as well but performs a new binding: it sets \<^verbatim>\<open>y.value = x\<close>.
\<close>

theorem Unify_repeated_binds_again:
  assumes "x \<noteq> y" and "val (vars h x) = None" and "val (vars h y) = None"
  shows "Unify (Suc n) ops (Variable x) (Variable y) h
           = Some (True, set_value x (Some (Variable y)) h)
         \<and> val (vars (set_value x (Some (Variable y)) h) y) = None
         \<and> Unify (Suc m) ops (Variable x) (Variable y) (set_value x (Some (Variable y)) h)
           = Some (True, set_value y (Some (Variable x)) (set_value x (Some (Variable y)) h))
         \<and> val (vars (set_value y (Some (Variable x)) (set_value x (Some (Variable y)) h)) y)
           = Some (Variable x)"
  using assms by (simp add: val_set_value)

theorem Unify_repeated_binds_again_witness:
  "(0 :: addr) \<noteq> 1 \<and> val (vars two_Variables 0) = None \<and> val (vars two_Variables 1) = None
   \<and> Unify 1 unit_ops (Variable 0) (Variable 1) two_Variables
       = Some (True, set_value 0 (Some (Variable 1)) two_Variables)
   \<and> val (vars (set_value 0 (Some (Variable 1)) two_Variables) 1) = None
   \<and> Unify 1 unit_ops (Variable 0) (Variable 1) (set_value 0 (Some (Variable 1)) two_Variables)
       = Some (True, set_value 1 (Some (Variable 0)) (set_value 0 (Some (Variable 1)) two_Variables))
   \<and> val (vars (set_value 1 (Some (Variable 0)) (set_value 0 (Some (Variable 1)) two_Variables)) 1)
       = Some (Variable 0)"
proof -
  have a: "(0 :: addr) \<noteq> 1" by simp
  have b: "val (vars two_Variables 0) = None"
    by (simp add: two_Variables_def NewVariable_def alloc_Variable_def empty_heap_def)
  have c: "val (vars two_Variables 1) = None"
    by (simp add: two_Variables_def NewVariable_def alloc_Variable_def empty_heap_def)
  from a b c Unify_repeated_binds_again [OF a b c, of 0 unit_ops 0]
  show ?thesis by simp
qed

text \<open>
  C5: for two distinct unset Variables x and y, \<^verbatim>\<open>x.Unify(y)\<close> followed by
  \<^verbatim>\<open>y.Unify(x)\<close> both return true and leave \<^verbatim>\<open>x.value = y\<close> and \<^verbatim>\<open>y.value = x\<close>:
  the chain of bindings from x leads back to x, and \<^verbatim>\<open>x.Value()\<close> and \<^verbatim>\<open>y.Value()\<close>
  return within no amount of fuel.
\<close>

theorem Unify_builds_cycle_Value_diverges:
  assumes "x \<noteq> y" and "val (vars h x) = None" and "val (vars h y) = None"
  shows "Unify (Suc n) ops (Variable x) (Variable y) h
           = Some (True, set_value x (Some (Variable y)) h)
         \<and> Unify (Suc m) ops (Variable y) (Variable x) (set_value x (Some (Variable y)) h)
           = Some (True, set_value y (Some (Variable x)) (set_value x (Some (Variable y)) h))
         \<and> (\<forall>k. Variable_Value k
                 (set_value y (Some (Variable x)) (set_value x (Some (Variable y)) h)) x = None)
         \<and> (\<forall>k. Variable_Value k
                 (set_value y (Some (Variable x)) (set_value x (Some (Variable y)) h)) y = None)"
proof -
  let ?h1 = "set_value x (Some (Variable y)) h"
  let ?h2 = "set_value y (Some (Variable x)) ?h1"
  have u1: "Unify (Suc n) ops (Variable x) (Variable y) h = Some (True, ?h1)"
    using assms by simp
  have u2: "Unify (Suc m) ops (Variable y) (Variable x) ?h1 = Some (True, ?h2)"
    using assms by (simp add: val_set_value)
  have vx: "val (vars ?h2 x) = Some (Variable y)"
    using assms by (simp add: val_set_value)
  have vy: "val (vars ?h2 y) = Some (Variable x)"
    by (simp add: val_set_value)
  have dx: "Variable_Value k ?h2 x = None" for k
    unfolding Variable_Value_def vx by (rule Value_loop_two_cycle [OF vy vx])
  have dy: "Variable_Value k ?h2 y = None" for k
    unfolding Variable_Value_def vy by (rule Value_loop_two_cycle [OF vx vy])
  from u1 u2 dx dy show ?thesis by blast
qed

theorem Unify_builds_cycle_Value_diverges_witness:
  "(0 :: addr) \<noteq> 1 \<and> val (vars two_Variables 0) = None \<and> val (vars two_Variables 1) = None
   \<and> Unify 1 unit_ops (Variable 0) (Variable 1) two_Variables
       = Some (True, set_value 0 (Some (Variable 1)) two_Variables)
   \<and> Unify 1 unit_ops (Variable 1) (Variable 0) (set_value 0 (Some (Variable 1)) two_Variables)
       = Some (True, set_value 1 (Some (Variable 0)) (set_value 0 (Some (Variable 1)) two_Variables))
   \<and> (\<forall>k. Variable_Value k
           (set_value 1 (Some (Variable 0)) (set_value 0 (Some (Variable 1)) two_Variables)) 0 = None)"
proof -
  have a: "(0 :: addr) \<noteq> 1" by simp
  have b: "val (vars two_Variables 0) = None"
    by (simp add: two_Variables_def NewVariable_def alloc_Variable_def empty_heap_def)
  have c: "val (vars two_Variables 1) = None"
    by (simp add: two_Variables_def NewVariable_def alloc_Variable_def empty_heap_def)
  from a b c Unify_builds_cycle_Value_diverges [OF a b c, of 0 unit_ops 0]
  show ?thesis by simp
qed

section \<open>Callable goal heads\<close>

text \<open>
  C7: \<^verbatim>\<open>Atom.Callable\<close> returns nil, so creating a choice point for a goal whose head
  is an Atom reports \<^verbatim>\<open>TypeErr{"callable", head}\<close> and no choice point, and the Results
  of such a query hold that error from the start.
\<close>

theorem Atom_head_is_TypeErr:
  "Callable (Suc n) h (Atom a) = Some None
   \<and> Prog_choicepoint (Suc n) p (Some g) bt
         (h\<lparr>goals := (goals h)(g := \<lparr>head = Atom a, tail = t\<rparr>)\<rparr>)
       = Return (None, Some (TypeErr ''callable'' (Atom a)))
   \<and> Prog_Query (Suc n) q (Some g) (h\<lparr>goals := (goals h)(g := \<lparr>head = Atom a, tail = t\<rparr>)\<rparr>)
       = Return \<lparr>r_p = None, r_cp = None, r_err = Some (TypeErr ''callable'' (Atom a))\<rparr>"
  by (simp add: Prog_choicepoint_def Prog_Query_def)

section \<open>The type tests\<close>

text \<open>
  C10: called with exactly one argument, each type test reads \<^verbatim>\<open>args[1]\<close>, which is
  out of range for a slice of length 1: \<^verbatim>\<open>Call\<close> of var/1 and of nonvar/1 panics
  whatever the argument is.
\<close>

theorem type_test_one_argument_panics:
  "type_test is_T [t] = Panic ''index out of range''
   \<and> Call n ops Var1 [t] h = Panic ''index out of range''
   \<and> Call n ops Nonvar1 [t] h = Panic ''index out of range''"
  by (simp add: type_test_def index_def Call_def builtin_Call_def Var1_def Nonvar1_def)

section \<open>Renaming on rule entry\<close>

text \<open>
  C3: for the rule \<^verbatim>\<open>r(X) :- a(X), b(X), c(X).\<close> the call \<^verbatim>\<open>Call([k])\<close> matches, but
  the body it returns has only the two goals \<^verbatim>\<open>a(X'), b(X')\<close> (X' = Variable 1 is the
  fresh copy of X = Variable 0), and the rule's own stored body, \<^verbatim>\<open>a(X), b(X), c(X)\<close>
  before the call, is \<^verbatim>\<open>a(X), b(X), c(X')\<close> after it: the copy loop of \<^verbatim>\<open>Rule.cp\<close>
  appends the copy of the third goal to the second node of the rule's own body.
\<close>

theorem Rule_Call_three_goals_truncated_and_mutated:
  "(case three_goal_rule of
      (r, h) \<Rightarrow>
        (Goal_heads 10 (goals h) (body r),
         case Rule_Call 10 (ops :: ('f :: equal) float64_ops) r [Atom ''k''] h of
           Return ((res, matches), h') \<Rightarrow>
             Some (matches, Goal_heads 10 (goals h') res, Goal_heads 10 (goals h') (body r))
         | _ \<Rightarrow> None))
   = (Some [Compound ''a'' [Variable 0], Compound ''b'' [Variable 0], Compound ''c'' [Variable 0]],
      Some (True,
            Some [Compound ''a'' [Variable 1], Compound ''b'' [Variable 1]],
            Some [Compound ''a'' [Variable 0], Compound ''b'' [Variable 0],
                  Compound ''c'' [Variable 1]]))"
  by code_simp

section \<open>Cut\<close>

text \<open>
  C1: for the program \<^verbatim>\<open>a(1). a(2). b(X) :- a(X), !.\<close> the query \<^verbatim>\<open>b(Y)\<close> yields
  Y = 1 on the first Next, Y = 2 on the second, and false only on the third: reaching
  the cut marker sets the backtrack link of the current choice point to nil and empties
  no clause queue, so the alternative clause a(2) is tried. The same program with the
  cut left out gives the same three results.
\<close>

theorem cut_query_tries_second_clause:
  "(case cut_example of
      (p, y, h) \<Rightarrow>
        Query_log 10 (ops :: ('f :: equal) float64_ops) p (Compound ''b'' [Variable y]) [] [y] 3 h)
   = Return [(True, [Some (Some (Integer 1))]),
             (True, [Some (Some (Integer 2))]),
             (False, [Some (Some (Integer 2))])]
   \<and> (case nocut_example of
          (p, y, h) \<Rightarrow>
            Query_log 10 ops p (Compound ''b'' [Variable y]) [] [y] 3 h)
       = Return [(True, [Some (Some (Integer 1))]),
                 (True, [Some (Some (Integer 2))]),
                 (False, [Some (Some (Integer 2))])]"
proof -
  have withcut: "(case cut_example of
           (p, y, h) \<Rightarrow> Query_log 10 ops p (Compound ''b'' [Variable y]) [] [y] 3 h)
        = Return [(True, [Some (Some (Integer 1))]),
                  (True, [Some (Some (Integer 2))]),
                  (False, [Some (Some (Integer 2))])]"
    by code_simp
  have nocut: "(case nocut_example of
           (p, y, h) \<Rightarrow> Query_log 10 ops p (Compound ''b'' [Variable y]) [] [y] 3 h)
        = Return [(True, [Some (Some (Integer 1))]),
                  (True, [Some (Some (Integer 2))]),
                  (False, [Some (Some (Integer 2))])]"
    by code_simp
  from withcut nocut show ?thesis by (rule conjI)
qed

section \<open>Backtracking and the store\<close>











end
